theory Spec2Isabelle
  imports Main "HOL-Library.Word"
begin

section \<open>JavaScript values used by the stream adapters\<close>

text \<open>
  A JavaScript string is a sequence of 16-bit code units; the regular expression of
  \<open>write\<close> has no \<open>u\<close> flag, so it works on code units. String literals of the source
  are ASCII and are written with \<open>utf16\<close>.
\<close>

type_synonym code_unit = "16 word"
type_synonym js_string = "code_unit list"

definition utf16 :: "string \<Rightarrow> js_string" where
  "utf16 s = map of_char s"

definition CR :: code_unit where
  "CR = 0x0D"

definition LF :: code_unit where
  "LF = 0x0A"

definition ESC :: code_unit where
  "ESC = 0x1B"

text \<open>
  Coordinates and deltas are JavaScript numbers holding integers; they are modelled as
  \<open>int\<close>. A template literal \<open>`${n}`\<close> renders an integer in decimal, with a leading
  minus sign when it is negative.
\<close>

fun digits :: "nat \<Rightarrow> js_string" where
  "digits n = (if n < 10 then [0x30 + of_nat n]
               else digits (n div 10) @ [0x30 + of_nat (n mod 10)])"

declare digits.simps [simp del]

definition number_to_string :: "int \<Rightarrow> js_string" where
  "number_to_string i = (if i < 0 then 0x2D # digits (nat (- i)) else digits (nat i))"

text \<open>Reading a decimal rendering back, to state that \<open>digits\<close> is the decimal notation.\<close>

definition decimal_value :: "js_string \<Rightarrow> nat" where
  "decimal_value s = foldl (\<lambda>acc c. 10 * acc + (unat c - 48)) 0 s"

text \<open>
  Completion callbacks are opaque to the adapter: a callback is identified by a number and
  calling it is recorded as an effect.
\<close>

type_synonym callback = nat

text \<open>
  The values a caller can pass where a number is expected (\<open>clearLine\<close>'s direction is
  compared with \<open>===\<close>, which never coerces).
\<close>

datatype js_value =
    JNumber int
  | JNaN
  | JString js_string
  | JBoolean bool
  | JUndefined
  | JNull
  | JFunction callback

text \<open>The second parameter of \<open>cursorTo\<close>: \<open>y?: number | (() => void)\<close>.\<close>

datatype y_arg = YNumber int | YFunction callback | YUndefined

text \<open>The value \<open>this\<close> returned by a chaining method.\<close>

datatype self_ref = This

section \<open>Line-ending substitution of \<open>write\<close>\<close>

text \<open>
  \<open>str.replace(/(?<!\r)\n/g, "\r\n")\<close>: the global replace scans the input from left to
  right; a line feed matches when the code unit before it in the input (if any) is not a
  carriage return. \<open>prev\<close> is that code unit, \<open>None\<close> at the start of the input.
\<close>

fun replace_from :: "code_unit option \<Rightarrow> js_string \<Rightarrow> js_string" where
  "replace_from prev [] = []"
| "replace_from prev (c # cs) =
     (if c = LF \<and> prev \<noteq> Some CR then [CR, LF] else [c]) @ replace_from (Some c) cs"

definition replace_bare_lf :: "js_string \<Rightarrow> js_string" where
  "replace_bare_lf str = replace_from None str"

text \<open>
  The substitution as the specification words it: position \<open>i\<close> holds a line feed that is
  not immediately preceded by a carriage return; every such position becomes the pair
  carriage return, line feed, and every other code unit is kept.
\<close>

definition bare_lf_at :: "js_string \<Rightarrow> nat \<Rightarrow> bool" where
  "bare_lf_at s i = (s ! i = LF \<and> (if i = 0 then True else s ! (i - 1) \<noteq> CR))"

definition spec_normalize :: "js_string \<Rightarrow> js_string" where
  "spec_normalize s =
     concat (map (\<lambda>i. if bare_lf_at s i then [CR, LF] else [s ! i]) [0..<length s])"

section \<open>TerminalWritableStream\<close>

text \<open>
  What the adapter does to its collaborators, in the order it does it:
  \<open>TermWrite s\<close> is \<open>this.term.write(s)\<close>, \<open>Invoke f\<close> is a call of the completion
  callback \<open>f\<close>, and \<open>Emit name args c r\<close> is \<open>this.emit(name, ...args)\<close>, recorded with
  the values \<open>c\<close> and \<open>r\<close> of \<open>this.columns\<close> and \<open>this.rows\<close> that a subscriber reads
  during the synchronous delivery.
\<close>

datatype effect =
    TermWrite js_string
  | Invoke callback
  | Emit string "js_string list" int int

text \<open>
  The adapter together with the terminal it refers to: \<open>term_cols\<close> and \<open>term_rows\<close> are
  \<open>this.term.cols\<close> and \<open>this.term.rows\<close>.
\<close>

record writable_stream =
  term_cols :: int
  term_rows :: int
  isTTY :: bool
  columns :: int
  rows :: int
  writable :: bool
  trace :: "effect list"

definition TerminalWritableStream :: "int \<Rightarrow> int \<Rightarrow> writable_stream" where
  "TerminalWritableStream cols0 rows0 =
     \<lparr> term_cols = cols0, term_rows = rows0, isTTY = True,
       columns = cols0, rows = rows0, writable = True, trace = [] \<rparr>"

text \<open>The terminal's own \<open>resize(cols, rows)\<close>, called by the owning component.\<close>

definition term_resize :: "int \<Rightarrow> int \<Rightarrow> writable_stream \<Rightarrow> writable_stream" where
  "term_resize c r w = w\<lparr>term_cols := c, term_rows := r\<rparr>"

definition term_write :: "js_string \<Rightarrow> writable_stream \<Rightarrow> writable_stream" where
  "term_write s w = w\<lparr>trace := trace w @ [TermWrite s]\<rparr>"

definition emit :: "string \<Rightarrow> js_string list \<Rightarrow> writable_stream \<Rightarrow> writable_stream" where
  "emit name args w = w\<lparr>trace := trace w @ [Emit name args (columns w) (rows w)]\<rparr>"

text \<open>\<open>if (cb) cb();\<close>\<close>

definition call_if_given :: "callback option \<Rightarrow> writable_stream \<Rightarrow> writable_stream" where
  "call_if_given cb w = (case cb of None \<Rightarrow> w | Some f \<Rightarrow> w\<lparr>trace := trace w @ [Invoke f]\<rparr>)"

definition write' ::
  "js_string \<Rightarrow> js_string option \<Rightarrow> callback option \<Rightarrow> writable_stream \<Rightarrow> bool \<times> writable_stream"
where
  "write' str encoding cb w =
     (let processedStr = replace_bare_lf str;
          w1 = term_write processedStr w;
          w2 = call_if_given cb w1
      in (True, w2))"

text \<open>
  \<open>if (chunk) { this.write(chunk, undefined, callback); } return this;\<close> where the test is
  JavaScript truthiness: \<open>undefined\<close> and the empty string are both falsy.
\<close>

definition end' ::
  "js_string option \<Rightarrow> callback option \<Rightarrow> writable_stream \<Rightarrow> self_ref \<times> writable_stream"
where
  "end' chunk callback w =
     (case chunk of
        None \<Rightarrow> (This, w)
      | Some c \<Rightarrow> if c \<noteq> [] then (This, snd (write' c None callback w)) else (This, w))"

definition getWindowSize :: "writable_stream \<Rightarrow> (int \<times> int) \<times> writable_stream" where
  "getWindowSize w = ((columns w, rows w), w)"

definition clearLine ::
  "js_value \<Rightarrow> callback option \<Rightarrow> writable_stream \<Rightarrow> bool \<times> writable_stream"
where
  "clearLine dir callback w =
     (let w1 = (if dir = JNumber (- 1) then term_write (ESC # utf16 ''[1K'') w
                else if dir = JNumber 1 then term_write (ESC # utf16 ''[0K'') w
                else term_write (ESC # utf16 ''[2K'') w)
      in (True, call_if_given callback w1))"

definition clearScreenDown :: "callback option \<Rightarrow> writable_stream \<Rightarrow> bool \<times> writable_stream" where
  "clearScreenDown callback w = (True, call_if_given callback (term_write (ESC # utf16 ''[J'') w))"

definition cursorTo ::
  "int \<Rightarrow> y_arg \<Rightarrow> callback option \<Rightarrow> writable_stream \<Rightarrow> bool \<times> writable_stream"
where
  "cursorTo x y callback w =
     (let (callback1, y1) = (case y of YFunction f \<Rightarrow> (Some f, YUndefined) | _ \<Rightarrow> (callback, y));
          w1 = (case y1 of
                  YNumber n \<Rightarrow>
                    term_write (ESC # utf16 ''['' @ number_to_string (n + 1) @ utf16 '';''
                                @ number_to_string (x + 1) @ utf16 ''H'') w
                | _ \<Rightarrow> term_write (ESC # utf16 ''['' @ number_to_string (x + 1) @ utf16 ''G'') w)
      in (True, call_if_given callback1 w1))"

definition moveCursor ::
  "int \<Rightarrow> int \<Rightarrow> callback option \<Rightarrow> writable_stream \<Rightarrow> bool \<times> writable_stream"
where
  "moveCursor dx dy callback w =
     (let w1 = (if dx > 0 then term_write (ESC # utf16 ''['' @ number_to_string dx @ utf16 ''C'') w
                else w);
          w2 = (if dx < 0 then term_write (ESC # utf16 ''['' @ number_to_string (- dx) @ utf16 ''D'') w1
                else w1);
          w3 = (if dy > 0 then term_write (ESC # utf16 ''['' @ number_to_string dy @ utf16 ''B'') w2
                else w2);
          w4 = (if dy < 0 then term_write (ESC # utf16 ''['' @ number_to_string (- dy) @ utf16 ''A'') w3
                else w3)
      in (True, call_if_given callback w4))"

definition updateDimensions :: "writable_stream \<Rightarrow> writable_stream" where
  "updateDimensions w =
     (let w1 = w\<lparr>columns := term_cols w\<rparr>;
          w2 = w1\<lparr>rows := term_rows w1\<rparr>
      in emit ''resize'' [] w2)"

text \<open>The calls of \<open>this.term.write\<close> among the effects, in order.\<close>

fun term_writes :: "effect list \<Rightarrow> js_string list" where
  "term_writes [] = []"
| "term_writes (TermWrite s # es) = s # term_writes es"
| "term_writes (e # es) = term_writes es"

text \<open>The fields that only a dimension sync may touch, and the two constant flags.\<close>

definition cached_fields :: "writable_stream \<Rightarrow> int \<times> int \<times> bool \<times> bool" where
  "cached_fields w = (columns w, rows w, isTTY w, writable w)"


section \<open>TerminalReadableStream\<close>

text \<open>
  The terminal keeps the listeners of its \<open>onData\<close> event. \<open>StreamHandler\<close> is the arrow
  function the constructor registers; \<open>Foreign k\<close> is a listener of somebody else, which
  does not touch the stream.
\<close>

datatype listener = StreamHandler | Foreign nat

record readable_stream =
  onData_listeners :: "listener list"
  isTTY' :: bool
  isRaw :: bool
  readable :: bool
  fd :: int
  emitted :: "(string \<times> js_string list) list"

text \<open>\<open>this.emit(name, ...args)\<close> on the readable stream.\<close>

definition emit' :: "string \<Rightarrow> js_string list \<Rightarrow> readable_stream \<Rightarrow> readable_stream" where
  "emit' name args s = s\<lparr>emitted := emitted s @ [(name, args)]\<rparr>"

text \<open>\<open>(data: string) => { this.emit("data", data); }\<close>\<close>

definition onData_handler :: "js_string \<Rightarrow> readable_stream \<Rightarrow> readable_stream" where
  "onData_handler data s = emit' ''data'' [data] s"

text \<open>
  The constructor receives the terminal, here the listeners it already has, and registers
  its handler once.
\<close>

definition TerminalReadableStream :: "nat list \<Rightarrow> readable_stream" where
  "TerminalReadableStream others =
     \<lparr> onData_listeners = map Foreign others @ [StreamHandler],
       isTTY' = True, isRaw = True, readable = True, fd = 0, emitted = [] \<rparr>"

fun run_listener :: "js_string \<Rightarrow> listener \<Rightarrow> readable_stream \<Rightarrow> readable_stream" where
  "run_listener data StreamHandler s = onData_handler data s"
| "run_listener data (Foreign k) s = s"

text \<open>The terminal reports one input chunk: every registered listener is called with it.\<close>

definition term_onData :: "js_string \<Rightarrow> readable_stream \<Rightarrow> readable_stream" where
  "term_onData data s = fold (run_listener data) (onData_listeners s) s"

definition read :: "int option \<Rightarrow> readable_stream \<Rightarrow> js_string option \<times> readable_stream" where
  "read sz s = (None, s)"

definition setRawMode :: "bool \<Rightarrow> readable_stream \<Rightarrow> self_ref \<times> readable_stream" where
  "setRawMode mode s = (This, s\<lparr>isRaw := mode\<rparr>)"

definition setEncoding :: "js_string \<Rightarrow> readable_stream \<Rightarrow> readable_stream" where
  "setEncoding encoding s = s"

definition resume :: "readable_stream \<Rightarrow> self_ref \<times> readable_stream" where
  "resume s = (This, s)"

definition pause :: "readable_stream \<Rightarrow> self_ref \<times> readable_stream" where
  "pause s = (This, s)"

definition ref :: "readable_stream \<Rightarrow> self_ref \<times> readable_stream" where
  "ref s = (This, s)"

definition unref :: "readable_stream \<Rightarrow> readable_stream" where
  "unref s = s"

text \<open>
  What can happen to the readable stream after construction: the terminal reports a
  chunk, or a caller uses one of the stream's methods.
\<close>

datatype input_action =
    TermData js_string
  | CallRead "int option"
  | CallSetRawMode bool
  | CallSetEncoding js_string
  | CallResume
  | CallPause
  | CallRef
  | CallUnref

fun step :: "input_action \<Rightarrow> readable_stream \<Rightarrow> readable_stream" where
  "step (TermData data) s = term_onData data s"
| "step (CallRead sz) s = snd (read sz s)"
| "step (CallSetRawMode mode) s = snd (setRawMode mode s)"
| "step (CallSetEncoding encoding) s = setEncoding encoding s"
| "step CallResume s = snd (resume s)"
| "step CallPause s = snd (pause s)"
| "step CallRef s = snd (ref s)"
| "step CallUnref s = unref s"

fun reported_chunks :: "input_action list \<Rightarrow> js_string list" where
  "reported_chunks [] = []"
| "reported_chunks (TermData data # as) = data # reported_chunks as"
| "reported_chunks (a # as) = reported_chunks as"

section \<open>Line-ending substitution: the source's scan and the specification agree\<close>

lemma replace_from_snoc:
  "replace_from prev (s @ [c]) =
     replace_from prev s
     @ (if c = LF \<and> (if s = [] then prev else Some (last s)) \<noteq> Some CR then [CR, LF] else [c])"
  by (induction s arbitrary: prev) auto

lemma spec_normalize_Nil: "spec_normalize [] = []"
  by (simp add: spec_normalize_def)

lemma bare_lf_at_snoc_old:
  "i < length s \<Longrightarrow> bare_lf_at (s @ [c]) i = bare_lf_at s i"
  by (cases i) (simp_all add: bare_lf_at_def nth_append)

lemma bare_lf_at_snoc_new:
  "bare_lf_at (s @ [c]) (length s) = (c = LF \<and> (s = [] \<or> last s \<noteq> CR))"
  by (cases s rule: rev_cases) (simp_all add: bare_lf_at_def nth_append)

lemma spec_normalize_snoc:
  "spec_normalize (s @ [c]) =
     spec_normalize s @ (if c = LF \<and> (s = [] \<or> last s \<noteq> CR) then [CR, LF] else [c])"
proof -
  have old: "map (\<lambda>i. if bare_lf_at (s @ [c]) i then [CR, LF] else [(s @ [c]) ! i]) [0..<length s]
             = map (\<lambda>i. if bare_lf_at s i then [CR, LF] else [s ! i]) [0..<length s]"
    by (rule map_cong) (simp_all add: bare_lf_at_snoc_old nth_append)
  show ?thesis
    unfolding spec_normalize_def
    by (simp add: old bare_lf_at_snoc_new)
qed

lemma replace_bare_lf_is_spec: "replace_bare_lf s = spec_normalize s"
proof (induction s rule: rev_induct)
  case Nil
  show ?case by (simp add: replace_bare_lf_def spec_normalize_Nil)
next
  case (snoc c s)
  then show ?case
    by (auto simp: replace_bare_lf_def replace_from_snoc spec_normalize_snoc)
qed

section \<open>Basic facts about the effects\<close>

lemma CR_neq_LF: "CR \<noteq> LF"
  by (simp add: CR_def LF_def)

lemma trace_term_write: "trace (term_write s w) = trace w @ [TermWrite s]"
  by (simp add: term_write_def)

lemma trace_call_if_given:
  "trace (call_if_given cb w) = trace w @ (case cb of None \<Rightarrow> [] | Some f \<Rightarrow> [Invoke f])"
  by (simp add: call_if_given_def split: option.splits)

lemma cached_fields_term_write: "cached_fields (term_write s w) = cached_fields w"
  by (simp add: cached_fields_def term_write_def)

lemma cached_fields_call_if_given: "cached_fields (call_if_given cb w) = cached_fields w"
  by (simp add: cached_fields_def call_if_given_def split: option.splits)

lemma term_writes_append: "term_writes (es @ fs) = term_writes es @ term_writes fs"
  by (induction es rule: term_writes.induct) simp_all

section \<open>The decimal rendering of numbers\<close>

lemma unat_digit: "d < 10 \<Longrightarrow> unat (0x30 + of_nat d :: code_unit) = 48 + d"
  by (simp add: unat_word_ariths unat_of_nat)

lemma decimal_value_snoc: "decimal_value (s @ [c]) = 10 * decimal_value s + (unat c - 48)"
  by (simp add: decimal_value_def)

lemma decimal_value_digits: "decimal_value (digits n) = n"
proof (induction n rule: digits.induct)
  case (1 n)
  show ?case
  proof (cases "n < 10")
    case True
    then show ?thesis
      by (subst digits.simps) (simp add: decimal_value_def unat_digit)
  next
    case False
    have "n mod 10 < 10" by simp
    then have d: "unat (0x30 + of_nat (n mod 10) :: code_unit) = 48 + n mod 10"
      by (rule unat_digit)
    from False 1 have ih: "decimal_value (digits (n div 10)) = n div 10" by simp
    from False show ?thesis
      by (subst digits.simps) (simp add: decimal_value_snoc d ih)
  qed
qed

lemma number_to_string_examples:
  "number_to_string 11 = utf16 ''11''"
  "number_to_string 0 = utf16 ''0''"
  "number_to_string (- 4) = utf16 ''-4''"
  by (simp_all add: number_to_string_def digits.simps utf16_def)

section \<open>write\<close>

text \<open>
  Claim C1. For every input string, \<open>write\<close> calls the terminal's write primitive exactly
  once, with the input in which each line feed not immediately preceded by a carriage
  return is replaced by carriage return, line feed and every other code unit is kept
  (\<open>spec_normalize\<close>); the callback, if given, is called afterwards and the result is
  \<open>true\<close>. Writing \<open>"a\nb\r\nc\n"\<close> forwards \<open>"a\r\nb\r\nc\r\n"\<close>, and writing the empty
  string forwards the empty string.
\<close>

theorem write_forwards_normalized:
  "trace (snd (write' str encoding cb w))
     = trace w @ TermWrite (spec_normalize str) # (case cb of None \<Rightarrow> [] | Some f \<Rightarrow> [Invoke f])
   \<and> fst (write' str encoding cb w) = True
   \<and> term_writes (trace (snd (write' (utf16 ''a'' @ LF # utf16 ''b'' @ CR # LF # utf16 ''c'' @ [LF])
                                 encoding cb w)))
     = term_writes (trace w) @ [utf16 ''a'' @ CR # LF # utf16 ''b'' @ CR # LF # utf16 ''c'' @ [CR, LF]]
   \<and> term_writes (trace (snd (write' [] encoding cb w))) = term_writes (trace w) @ [utf16 '''']"
  by (simp add: write'_def trace_term_write trace_call_if_given replace_bare_lf_is_spec [symmetric]
      replace_bare_lf_def term_writes_append utf16_def CR_def LF_def split: option.splits)

theorem write_forwards_normalized_witness:
  "trace (snd (write' [0x61, LF, 0x62] None (Some 7) (TerminalWritableStream 80 24)))
     = [TermWrite [0x61, CR, LF, 0x62], Invoke 7]"
  using write_forwards_normalized [of "[0x61, LF, 0x62]" None "Some 7" "TerminalWritableStream 80 24"]
  by (simp add: replace_bare_lf_is_spec [symmetric] replace_bare_lf_def TerminalWritableStream_def
      CR_def LF_def)

section \<open>TerminalReadableStream: one notification per chunk\<close>

lemma fold_foreign: "fold (run_listener data) (map Foreign others) s = s"
  by (induction others) simp_all

lemma term_onData_registered:
  "onData_listeners s = map Foreign others @ [StreamHandler] \<Longrightarrow>
   term_onData data s = onData_handler data s"
  by (simp add: term_onData_def fold_foreign)

lemma step_listeners:
  "onData_listeners s = map Foreign others @ [StreamHandler] \<Longrightarrow>
   onData_listeners (step a s) = onData_listeners s"
  by (cases a)
     (simp_all add: term_onData_registered onData_handler_def emit'_def read_def setRawMode_def
        setEncoding_def resume_def pause_def ref_def unref_def)

lemma step_emitted:
  "onData_listeners s = map Foreign others @ [StreamHandler] \<Longrightarrow>
   emitted (step a s) = emitted s @ map (\<lambda>c. (''data'', [c])) (reported_chunks [a])"
  by (cases a)
     (simp_all add: term_onData_registered onData_handler_def emit'_def read_def setRawMode_def
        setEncoding_def resume_def pause_def ref_def unref_def)

lemma reported_chunks_Cons: "reported_chunks (a # as) = reported_chunks [a] @ reported_chunks as"
  by (cases a) simp_all

lemma fold_step_emitted:
  "onData_listeners s = map Foreign others @ [StreamHandler] \<Longrightarrow>
   emitted (fold step as s) = emitted s @ map (\<lambda>c. (''data'', [c])) (reported_chunks as)"
proof (induction as arbitrary: s)
  case Nil
  show ?case by simp
next
  case (Cons a as)
  have l: "onData_listeners (step a s) = map Foreign others @ [StreamHandler]"
    using Cons.prems by (simp add: step_listeners)
  have "emitted (fold step (a # as) s) = emitted (step a s) @ map (\<lambda>c. (''data'', [c])) (reported_chunks as)"
    using Cons.IH [OF l] by simp
  also have "\<dots> = emitted s @ map (\<lambda>c. (''data'', [c])) (reported_chunks [a] @ reported_chunks as)"
    using step_emitted [OF Cons.prems] by simp
  finally show ?case
    using reported_chunks_Cons [of a as] by simp
qed

lemma fold_step_listeners:
  "onData_listeners s = map Foreign others @ [StreamHandler] \<Longrightarrow>
   onData_listeners (fold step as s) = onData_listeners s"
proof (induction as arbitrary: s)
  case Nil
  show ?case by simp
next
  case (Cons a as)
  have l: "onData_listeners (step a s) = map Foreign others @ [StreamHandler]"
    using Cons.prems by (simp add: step_listeners)
  show ?case
    using Cons.IH [OF l] Cons.prems by (simp add: step_listeners)
qed

lemma reported_chunks_TermData: "reported_chunks (map TermData chunks) = chunks"
  by (induction chunks) simp_all

lemma fold_map_step: "fold step (map TermData chunks) s = fold term_onData chunks s"
  by (induction chunks arbitrary: s) simp_all

text \<open>
  Claim C2. Whatever finite sequence of chunks the terminal reports through \<open>onData\<close>,
  the readable stream emits one \<open>data\<close> notification per chunk, carrying that chunk, in
  arrival order: N chunks give exactly N notifications. Each one is emitted during the
  terminal's report itself, and no method of the stream (\<open>pause\<close> included) called in
  between buffers, merges or drops one.
\<close>

theorem data_emitted_once_per_chunk:
  "emitted (fold term_onData chunks (TerminalReadableStream others))
     = map (\<lambda>c. (''data'', [c])) chunks
   \<and> length (emitted (fold term_onData chunks (TerminalReadableStream others))) = length chunks
   \<and> emitted (term_onData c (fold step as (TerminalReadableStream others)))
     = emitted (fold step as (TerminalReadableStream others)) @ [(''data'', [c])]
   \<and> emitted (fold step as (TerminalReadableStream others))
     = map (\<lambda>c. (''data'', [c])) (reported_chunks as)"
proof -
  have l: "onData_listeners (TerminalReadableStream others) = map Foreign others @ [StreamHandler]"
    by (simp add: TerminalReadableStream_def)
  have e: "emitted (TerminalReadableStream others) = []"
    by (simp add: TerminalReadableStream_def)
  have all: "emitted (fold step as (TerminalReadableStream others))
     = map (\<lambda>c. (''data'', [c])) (reported_chunks as)" for as
    using fold_step_emitted [OF l, of as] e by simp
  have chunks: "emitted (fold term_onData chunks (TerminalReadableStream others))
     = map (\<lambda>c. (''data'', [c])) chunks"
    using all [of "map TermData chunks"] by (simp add: fold_map_step reported_chunks_TermData)
  have "onData_listeners (fold step as (TerminalReadableStream others))
        = map Foreign others @ [StreamHandler]"
    using fold_step_listeners [OF l, of as] l by simp
  then have one: "emitted (term_onData c (fold step as (TerminalReadableStream others)))
     = emitted (fold step as (TerminalReadableStream others)) @ [(''data'', [c])]"
    by (simp add: term_onData_registered onData_handler_def emit'_def)
  show ?thesis
    using all chunks one by simp
qed

theorem data_emitted_once_per_chunk_witness:
  "emitted (fold term_onData (utf16 ''a'' # utf16 '''' # utf16 ''bc'' # []) (TerminalReadableStream (3 # [])))
     = (''data'', utf16 ''a'' # []) # (''data'', utf16 '''' # []) # (''data'', utf16 ''bc'' # []) # []"
  using data_emitted_once_per_chunk [of "utf16 ''a'' # utf16 '''' # utf16 ''bc'' # []" "3 # []"]
  by simp

section \<open>Cursor and screen control\<close>





text \<open>
  Claim C5. For every value of the direction, \<open>clearLine\<close> forwards exactly one escape
  sequence and returns \<open>true\<close>: \<open>ESC [1K\<close> for \<open>-1\<close>, \<open>ESC [0K\<close> for \<open>1\<close>, and \<open>ESC [2K\<close>
  for every other value, \<open>0\<close> and values that are not numbers included.
\<close>

theorem clearLine_sequences:
  "trace (snd (clearLine dir cb w))
     = trace w
       @ TermWrite (if dir = JNumber (- 1) then ESC # utf16 ''[1K''
                    else if dir = JNumber 1 then ESC # utf16 ''[0K''
                    else ESC # utf16 ''[2K'')
         # (case cb of None \<Rightarrow> [] | Some g \<Rightarrow> [Invoke g])
   \<and> fst (clearLine dir cb w) = True
   \<and> length (term_writes (trace (snd (clearLine dir cb w)))) = Suc (length (term_writes (trace w)))"
  by (simp add: clearLine_def Let_def trace_term_write trace_call_if_given term_writes_append
      split: option.splits)

theorem clearLine_sequences_witness:
  "trace (snd (clearLine (JNumber 0) None (TerminalWritableStream 80 24))) = [TermWrite (ESC # utf16 ''[2K'')]
   \<and> trace (snd (clearLine JNaN None (TerminalWritableStream 80 24))) = [TermWrite (ESC # utf16 ''[2K'')]
   \<and> trace (snd (clearLine (JString (utf16 ''1'')) None (TerminalWritableStream 80 24)))
     = [TermWrite (ESC # utf16 ''[2K'')]
   \<and> trace (snd (clearLine (JNumber (- 1)) None (TerminalWritableStream 80 24)))
     = [TermWrite (ESC # utf16 ''[1K'')]
   \<and> trace (snd (clearLine (JNumber 1) None (TerminalWritableStream 80 24)))
     = [TermWrite (ESC # utf16 ''[0K'')]"
  using clearLine_sequences [of "JNumber 0" None "TerminalWritableStream 80 24"]
    clearLine_sequences [of JNaN None "TerminalWritableStream 80 24"]
    clearLine_sequences [of "JString (utf16 ''1'')" None "TerminalWritableStream 80 24"]
    clearLine_sequences [of "JNumber (- 1)" None "TerminalWritableStream 80 24"]
    clearLine_sequences [of "JNumber 1" None "TerminalWritableStream 80 24"]
  by (simp add: TerminalWritableStream_def)

section \<open>Cached dimensions\<close>

text \<open>
  Claim C6. At construction the adapter's \<open>columns\<close> and \<open>rows\<close> are the terminal's size
  at that time. After every call of \<open>updateDimensions\<close> they are the terminal's current
  column and row count, and the call publishes exactly one \<open>resize\<close> notification,
  without payload, at a moment when the cached dimensions already hold the new size; so
  it is after an external resize of the terminal.
\<close>

theorem dimensions_follow_terminal:
  "columns (TerminalWritableStream c r) = c \<and> rows (TerminalWritableStream c r) = r
   \<and> columns (updateDimensions w) = term_cols w \<and> rows (updateDimensions w) = term_rows w
   \<and> term_cols (updateDimensions w) = term_cols w \<and> term_rows (updateDimensions w) = term_rows w
   \<and> trace (updateDimensions w) = trace w @ [Emit ''resize'' [] (term_cols w) (term_rows w)]
   \<and> columns (updateDimensions (term_resize c' r' w)) = c'
   \<and> rows (updateDimensions (term_resize c' r' w)) = r'
   \<and> trace (updateDimensions (term_resize c' r' w)) = trace w @ [Emit ''resize'' [] c' r']"
  by (simp add: TerminalWritableStream_def updateDimensions_def emit_def term_resize_def Let_def)

theorem dimensions_follow_terminal_witness:
  "columns (updateDimensions (term_resize 100 40 (TerminalWritableStream 80 24))) = 100
   \<and> rows (updateDimensions (term_resize 100 40 (TerminalWritableStream 80 24))) = 40
   \<and> trace (updateDimensions (term_resize 100 40 (TerminalWritableStream 80 24)))
     = [Emit ''resize'' [] 100 40]"
  using dimensions_follow_terminal [of 80 24 "TerminalWritableStream 80 24" 100 40]
  by (simp add: TerminalWritableStream_def)

lemma cached_fields_write': "cached_fields (snd (write' str encoding cb w)) = cached_fields w"
  by (simp add: write'_def cached_fields_call_if_given cached_fields_term_write)

lemma cached_fields_moveCursor: "cached_fields (snd (moveCursor dx dy cb w)) = cached_fields w"
  by (simp add: moveCursor_def Let_def cached_fields_call_if_given cached_fields_term_write)

lemma cached_fields_cursorTo: "cached_fields (snd (cursorTo x y cb w)) = cached_fields w"
  by (simp add: cursorTo_def cached_fields_call_if_given cached_fields_term_write
      split: y_arg.splits)

text \<open>
  Claim C7. \<open>write\<close>, \<open>end\<close>, \<open>getWindowSize\<close>, \<open>clearLine\<close>, \<open>clearScreenDown\<close>,
  \<open>cursorTo\<close> and \<open>moveCursor\<close> leave \<open>columns\<close>, \<open>rows\<close>, \<open>isTTY\<close> and \<open>writable\<close> as they
  were, for all arguments; \<open>updateDimensions\<close> is the operation that overwrites the cached
  dimensions (with the terminal's), and it too keeps the two flags. What a completion
  callback does when it is called is the caller's code, not the operation's.
\<close>

theorem only_updateDimensions_changes_dimensions:
  "cached_fields (snd (write' str encoding cb w)) = cached_fields w
   \<and> cached_fields (snd (end' chunk cb w)) = cached_fields w
   \<and> cached_fields (snd (getWindowSize w)) = cached_fields w
   \<and> cached_fields (snd (clearLine dir cb w)) = cached_fields w
   \<and> cached_fields (snd (clearScreenDown cb w)) = cached_fields w
   \<and> cached_fields (snd (cursorTo x y cb w)) = cached_fields w
   \<and> cached_fields (snd (moveCursor dx dy cb w)) = cached_fields w
   \<and> cached_fields (updateDimensions w) = (term_cols w, term_rows w, isTTY w, writable w)"
proof -
  have "cached_fields (snd (end' chunk cb w)) = cached_fields w"
    by (simp add: end'_def cached_fields_write' split: option.splits)
  moreover have "cached_fields (snd (clearLine dir cb w)) = cached_fields w"
    by (simp add: clearLine_def cached_fields_call_if_given cached_fields_term_write)
  moreover have "cached_fields (snd (clearScreenDown cb w)) = cached_fields w"
    by (simp add: clearScreenDown_def cached_fields_call_if_given cached_fields_term_write)
  moreover have "cached_fields (updateDimensions w) = (term_cols w, term_rows w, isTTY w, writable w)"
    by (simp add: updateDimensions_def emit_def cached_fields_def Let_def)
  ultimately show ?thesis
    by (simp add: cached_fields_write' cached_fields_cursorTo cached_fields_moveCursor
        getWindowSize_def)
qed

theorem only_updateDimensions_changes_dimensions_witness:
  "cached_fields (snd (write' [LF] None None (term_resize 100 40 (TerminalWritableStream 80 24))))
     = (80, 24, True, True)
   \<and> cached_fields (snd (cursorTo 1 (YNumber 2) None (term_resize 100 40 (TerminalWritableStream 80 24))))
     = (80, 24, True, True)
   \<and> cached_fields (updateDimensions (term_resize 100 40 (TerminalWritableStream 80 24)))
     = (100, 40, True, True)"
  using only_updateDimensions_changes_dimensions
    [of "[LF]" None None "term_resize 100 40 (TerminalWritableStream 80 24)" None "JNumber 0" 1
      "YNumber 2" 0 0]
  by (simp add: cached_fields_def term_resize_def TerminalWritableStream_def)

section \<open>Line endings: input without carriage returns, and trailing carriage returns\<close>






text \<open>
  Claim C10. For every input that ends in a carriage return, \<open>write\<close> forwards the
  substitution of what precedes it followed by that one carriage return: the trailing
  carriage return is neither removed nor doubled, and no line feed is added after it.
\<close>

theorem trailing_cr_passed_through:
  "trace (snd (write' (s @ [CR]) encoding cb w))
     = trace w @ TermWrite (replace_bare_lf s @ [CR]) # (case cb of None \<Rightarrow> [] | Some g \<Rightarrow> [Invoke g])"
  by (simp add: write'_def replace_bare_lf_def replace_from_snoc CR_neq_LF trace_term_write
      trace_call_if_given)

theorem trailing_cr_passed_through_witness:
  "trace (snd (write' [0x61, LF, CR] None None (TerminalWritableStream 80 24)))
     = [TermWrite [0x61, CR, LF, CR]]"
  using trailing_cr_passed_through [of "[0x61, LF]" None None "TerminalWritableStream 80 24"]
  by (simp add: replace_bare_lf_def TerminalWritableStream_def CR_def LF_def)

section \<open>end\<close>




end
